theory Spec2Isabelle
  imports Complex_Main
begin

section \<open>JavaScript values used by the sheet\<close>

text \<open>
  A JavaScript number is modelled at ideal precision: a finite value is a real, and the
  three special values that the arithmetic of \<^verbatim>\<open>sheet.jsx\<close> can produce (a division by a
  client height of zero) are kept apart. Rounding of doubles and the sign of zero are not
  modelled; the only divisor that can be zero in the source is a client height, which is
  a non-negative integer, so a zero divisor is read as \<^verbatim>\<open>+0\<close>.
\<close>

datatype number = Fin real | PosInfinity | NegInfinity | NaN

fun js_neg :: "number \<Rightarrow> number" where
  "js_neg (Fin a) = Fin (- a)"
| "js_neg PosInfinity = NegInfinity"
| "js_neg NegInfinity = PosInfinity"
| "js_neg NaN = NaN"

fun js_add :: "number \<Rightarrow> number \<Rightarrow> number" where
  "js_add (Fin a) (Fin b) = Fin (a + b)"
| "js_add NaN y = NaN"
| "js_add x NaN = NaN"
| "js_add PosInfinity NegInfinity = NaN"
| "js_add NegInfinity PosInfinity = NaN"
| "js_add PosInfinity y = PosInfinity"
| "js_add NegInfinity y = NegInfinity"
| "js_add (Fin a) PosInfinity = PosInfinity"
| "js_add (Fin a) NegInfinity = NegInfinity"

definition js_sub :: "number \<Rightarrow> number \<Rightarrow> number" where
  "js_sub x y = js_add x (js_neg y)"

text \<open>The sign of a number that is not \<^verbatim>\<open>NaN\<close>: \<open>1\<close>, \<open>0\<close> or \<open>-1\<close>.\<close>

fun js_sign :: "number \<Rightarrow> int" where
  "js_sign (Fin a) = (if a > 0 then 1 else if a < 0 then -1 else 0)"
| "js_sign PosInfinity = 1"
| "js_sign NegInfinity = -1"
| "js_sign NaN = 0"

definition signed_infinity :: "int \<Rightarrow> number" where
  "signed_infinity sg = (if sg > 0 then PosInfinity else if sg < 0 then NegInfinity else NaN)"

fun js_mul :: "number \<Rightarrow> number \<Rightarrow> number" where
  "js_mul (Fin a) (Fin b) = Fin (a * b)"
| "js_mul NaN y = NaN"
| "js_mul x NaN = NaN"
| "js_mul x y = signed_infinity (js_sign x * js_sign y)"

fun js_div :: "number \<Rightarrow> number \<Rightarrow> number" where
  "js_div (Fin a) (Fin b) = (if b = 0 then signed_infinity (js_sign (Fin a)) else Fin (a / b))"
| "js_div NaN y = NaN"
| "js_div x NaN = NaN"
| "js_div (Fin a) y = Fin 0"
| "js_div x (Fin b) = signed_infinity (js_sign x * (if b < 0 then -1 else 1))"
| "js_div x y = NaN"

text \<open>\<^verbatim>\<open>Math.min\<close> and \<^verbatim>\<open>Math.max\<close> of two arguments: \<^verbatim>\<open>NaN\<close> if either is.\<close>

fun js_le :: "number \<Rightarrow> number \<Rightarrow> bool" where
  "js_le NaN y = False"
| "js_le x NaN = False"
| "js_le NegInfinity y = True"
| "js_le x PosInfinity = True"
| "js_le (Fin a) (Fin b) = (a \<le> b)"
| "js_le x y = False"

fun Math_min :: "number \<Rightarrow> number \<Rightarrow> number" where
  "Math_min NaN y = NaN"
| "Math_min x NaN = NaN"
| "Math_min x y = (if js_le x y then x else y)"

fun Math_max :: "number \<Rightarrow> number \<Rightarrow> number" where
  "Math_max NaN y = NaN"
| "Math_max x NaN = NaN"
| "Math_max x y = (if js_le x y then y else x)"

text \<open>The comparison \<^verbatim>\<open>x < y\<close>: false when either side is \<^verbatim>\<open>NaN\<close>.\<close>

fun js_lt :: "number \<Rightarrow> number \<Rightarrow> bool" where
  "js_lt NaN y = False"
| "js_lt x NaN = False"
| "js_lt (Fin a) (Fin b) = (a < b)"
| "js_lt NegInfinity NegInfinity = False"
| "js_lt NegInfinity y = True"
| "js_lt PosInfinity y = False"
| "js_lt (Fin a) PosInfinity = True"
| "js_lt (Fin a) NegInfinity = False"

text \<open>
  The values a caller can assign to a property. \<^verbatim>\<open>Boolean(value)\<close> is the truthiness of
  the language: \<^verbatim>\<open>undefined\<close>, \<^verbatim>\<open>null\<close>, \<^verbatim>\<open>false\<close>, zero, \<^verbatim>\<open>NaN\<close> and the empty string are
  falsy, everything else (every object included) is truthy.
\<close>

datatype jsval = Undefined | Null | Bool bool | Number number | String string | Object nat

fun Boolean :: "jsval \<Rightarrow> bool" where
  "Boolean Undefined = False"
| "Boolean Null = False"
| "Boolean (Bool b) = b"
| "Boolean (Number (Fin a)) = (a \<noteq> 0)"
| "Boolean (Number NaN) = False"
| "Boolean (Number x) = True"
| "Boolean (String str) = (str \<noteq> [])"
| "Boolean (Object ref) = True"

text \<open>
  The public field \<^verbatim>\<open>options\<close> holds an object. The constructor leaves there the object
  of the field initialiser with its two properties turned into accessors over the
  attributes of the element. The field is writable, so a caller can put another object
  in its place; such an object is taken to be a plain one, known by the values of its
  properties \<^verbatim>\<open>closeOnBackgroundClick\<close> and \<^verbatim>\<open>closeOnEscapeKey\<close> (\<^verbatim>\<open>undefined\<close> when it has
  none). Values that are not objects are left out: with them the handlers would throw
  when they read a flag.
\<close>

datatype options_object = Installed | Replaced jsval jsval

text \<open>
  Modelled from the spec: \<^verbatim>\<open>mapNumber(value, fromRange, toRange)\<close> of \<^verbatim>\<open>helpers.js\<close>, which is
  not among the sources; the spec describes it as linear interpolation of \<open>value\<close> from
  the first range onto the second.
\<close>

definition mapNumber :: "number \<Rightarrow> number \<times> number \<Rightarrow> number \<times> number \<Rightarrow> number" where
  "mapNumber v fromRange toRange =
     js_add (fst toRange)
       (js_div (js_mul (js_sub v (fst fromRange)) (js_sub (snd toRange) (fst toRange)))
               (js_sub (snd fromRange) (fst fromRange)))"

section \<open>The sheet element and the part of the document it touches\<close>

text \<open>A DOM node is known by its identity only.\<close>

datatype node = Node nat

text \<open>
  The six bound methods of the table \<^verbatim>\<open>#eventListeners\<close>. They are created once, when the
  instance is constructed, so a reference to one of them is the same value at every use.
  A listener of the window is either one of them or a function of some other code.
\<close>

datatype bound_method =
  Ref_onDragMove | Ref_onDragStart | Ref_onDragEnd | Ref_onKeyUp | Ref_onCloseButtonClick | Ref_onClick

datatype listener = Own bound_method | Foreign nat

text \<open>
  The inline \<^verbatim>\<open>style.transform\<close> of the inner wrapper is either the empty string or the
  template \<^verbatim>\<open>translateY(t%) scale(s)\<close>; the two numbers are kept instead of their print.
\<close>

datatype transform = EmptyTransform | TranslateY_Scale number number

record event =
  etype :: string
  key :: string
  target :: node
  composedPath :: "node list"
  pageY :: number

text \<open>
  The fields up to \<open>css_scale_down_to\<close> belong to the element: its attributes, the custom
  events dispatched on it so far (oldest first), the object in its public field
  \<^verbatim>\<open>options\<close>, its private fields and the inline
  style, class and layout of its shadow tree. The remaining ones are the document
  around it. \<open>pageY\<close> of an event is \<^verbatim>\<open>touchPosition(event).pageY\<close>;
  \<open>css_scale_down_to\<close> is \<^verbatim>\<open>+getCSSVariableValue(this.#sheet, "--scale-down-to")\<close>; \<open>contents\<close>
  is the set of nodes \<open>n\<close> with \<^verbatim>\<open>elementContains(n, this)\<close>. The three helpers are
  in \<^verbatim>\<open>helpers.js\<close>, which is not among the sources, so their results are taken as given.
\<close>

record state =
  attributes :: "string \<rightharpoonup> string"
  dispatched :: "string list"
  options :: options_object
  sheet :: node
  dragPosition :: "number option"
  scaleDownTo :: "number option"
  is_resized :: bool
  style_transform :: transform
  style_transition :: string
  area_cursor :: string
  clientHeight :: nat
  css_scale_down_to :: number
  contents :: "node set"
  body_cursor :: string
  activeElement :: "node option"
  window_listeners :: "(string \<times> listener) list"

subsection \<open>Attributes and events of the host element\<close>

definition hasAttribute :: "string \<Rightarrow> state \<Rightarrow> bool" where
  "hasAttribute name s = (attributes s name \<noteq> None)"

definition setAttribute :: "string \<Rightarrow> string \<Rightarrow> state \<Rightarrow> state" where
  "setAttribute name v s = s\<lparr>attributes := (attributes s)(name \<mapsto> v)\<rparr>"

definition removeAttribute :: "string \<Rightarrow> state \<Rightarrow> state" where
  "removeAttribute name s = s\<lparr>attributes := (attributes s)(name := None)\<rparr>"

definition dispatchEvent :: "string \<Rightarrow> state \<Rightarrow> state" where
  "dispatchEvent name s = s\<lparr>dispatched := dispatched s @ [name]\<rparr>"

subsection \<open>Opening and closing\<close>

definition showModal :: "state \<Rightarrow> state" where
  "showModal s = dispatchEvent ''open'' (setAttribute ''open'' ''true'' s)"

definition show_sheet :: "state \<Rightarrow> state" where
  "show_sheet s = showModal s"

definition close :: "state \<Rightarrow> state" where
  "close s = dispatchEvent ''close'' (removeAttribute ''open'' s)"

definition get_open :: "state \<Rightarrow> bool" where
  "get_open s = hasAttribute ''open'' s"

definition set_open :: "jsval \<Rightarrow> state \<Rightarrow> state" where
  "set_open v s = (if v = Bool False \<or> v = Undefined then close s else show_sheet s)"

text \<open>A call of one of the two methods, and a sequence of such calls run in order.\<close>

datatype call = Show | Close

fun perform :: "call \<Rightarrow> state \<Rightarrow> state" where
  "perform Show s = show_sheet s"
| "perform Close s = close s"

fun notification :: "call \<Rightarrow> string" where
  "notification Show = ''open''"
| "notification Close = ''close''"

definition perform_all :: "call list \<Rightarrow> state \<Rightarrow> state" where
  "perform_all cs s = fold perform cs s"

subsection \<open>The two behaviour options\<close>

text \<open>
  Reading a flag as a handler does, in a condition: through the accessors of the
  installed object it is the absence of the ignore attribute, on a replaced object it is
  the truthiness of the property. Assigning a flag goes through the setter of the
  installed object, which removes or sets the attribute, or writes the property of a
  replaced object.
\<close>

definition closeOnBackgroundClick :: "state \<Rightarrow> bool" where
  "closeOnBackgroundClick s =
     (case options s of
        Installed \<Rightarrow> \<not> hasAttribute ''ignore-background-click'' s
      | Replaced background escape \<Rightarrow> Boolean background)"

definition set_closeOnBackgroundClick :: "jsval \<Rightarrow> state \<Rightarrow> state" where
  "set_closeOnBackgroundClick v s =
     (case options s of
        Installed \<Rightarrow>
          (if Boolean v then removeAttribute ''ignore-background-click'' s
           else setAttribute ''ignore-background-click'' ''true'' s)
      | Replaced background escape \<Rightarrow> s\<lparr>options := Replaced v escape\<rparr>)"

definition closeOnEscapeKey :: "state \<Rightarrow> bool" where
  "closeOnEscapeKey s =
     (case options s of
        Installed \<Rightarrow> \<not> hasAttribute ''ignore-escape-key'' s
      | Replaced background escape \<Rightarrow> Boolean escape)"

definition set_closeOnEscapeKey :: "jsval \<Rightarrow> state \<Rightarrow> state" where
  "set_closeOnEscapeKey v s =
     (case options s of
        Installed \<Rightarrow>
          (if Boolean v then removeAttribute ''ignore-escape-key'' s
           else setAttribute ''ignore-escape-key'' ''true'' s)
      | Replaced background escape \<Rightarrow> s\<lparr>options := Replaced background v\<rparr>)"

text \<open>The assignment \<^verbatim>\<open>sheet.options = object\<close>.\<close>

definition set_options :: "options_object \<Rightarrow> state \<Rightarrow> state" where
  "set_options object s = s\<lparr>options := object\<rparr>"

subsection \<open>Clicks and the Escape key\<close>

definition onClick :: "event \<Rightarrow> state \<Rightarrow> state" where
  "onClick ev s =
     (let path = composedPath ev
      in if find (\<lambda>item. item = sheet s) path = None \<and> closeOnBackgroundClick s
         then close s else s)"

definition onCloseButtonClick :: "state \<Rightarrow> state" where
  "onCloseButtonClick s = close s"

definition elementContains :: "node \<Rightarrow> state \<Rightarrow> bool" where
  "elementContains descendant s = (descendant \<in> contents s)"

text \<open>
  Modelled from the spec: \<^verbatim>\<open>isFocused(element)\<close> of \<^verbatim>\<open>helpers.js\<close>, which is not among the
  sources; the element is focused when it is the active element of the document.
\<close>

definition isFocused :: "node \<Rightarrow> state \<Rightarrow> bool" where
  "isFocused element s = (activeElement s = Some element)"

definition onKeyUp :: "event \<Rightarrow> state \<Rightarrow> state" where
  "onKeyUp ev s =
     (let isSheetElementFocused = (elementContains (target ev) s \<and> isFocused (target ev) s)
      in if key ev = ''Escape'' \<and> \<not> isSheetElementFocused \<and> closeOnEscapeKey s
         then close s else s)"

subsection \<open>Dragging\<close>

text \<open>A private field that was never assigned reads \<^verbatim>\<open>undefined\<close>, which arithmetic turns into \<^verbatim>\<open>NaN\<close>.\<close>

fun to_number :: "number option \<Rightarrow> number" where
  "to_number None = NaN"
| "to_number (Some x) = x"

text \<open>
  The style object ignores an assignment of a string it cannot parse, and a number that
  prints as \<^verbatim>\<open>NaN\<close> or \<^verbatim>\<open>Infinity\<close> makes the transform such a string: the transform then
  stays what it was.
\<close>

fun is_finite :: "number \<Rightarrow> bool" where
  "is_finite (Fin a) = True"
| "is_finite x = False"

definition dragSheet :: "number \<Rightarrow> state \<Rightarrow> state" where
  "dragSheet distanceToTheBottomInPercents s =
     (let translateY = js_sub (Fin 100) distanceToTheBottomInPercents;
          scale = mapNumber distanceToTheBottomInPercents (Fin 0, Fin 100)
                    (to_number (scaleDownTo s), Fin 1)
      in s\<lparr>style_transform :=
             (if is_finite translateY \<and> is_finite scale then TranslateY_Scale translateY scale
              else style_transform s),
           style_transition := ''none''\<rparr>)"

definition onDragStart :: "event \<Rightarrow> state \<Rightarrow> state" where
  "onDragStart ev s =
     s\<lparr>dragPosition := Some (pageY ev),
       is_resized := True,
       area_cursor := ''grabbing'',
       body_cursor := ''grabbing'',
       scaleDownTo := Some (css_scale_down_to s)\<rparr>"

definition getDistanceToTheBottomInPercents :: "number \<Rightarrow> state \<Rightarrow> number" where
  "getDistanceToTheBottomInPercents y s =
     (let deltaY = js_sub (to_number (dragPosition s)) y;
          distanceToTheBottomInPercents =
            js_add (Fin 100) (js_mul (js_div deltaY (Fin (real (clientHeight s)))) (Fin 100))
      in Math_max (Fin 0) (Math_min (Fin 100) distanceToTheBottomInPercents))"

definition onDragMove :: "event \<Rightarrow> state \<Rightarrow> state" where
  "onDragMove ev s =
     (if dragPosition s = None then s
      else dragSheet (getDistanceToTheBottomInPercents (pageY ev) s) s)"

text \<open>What the end of a drag does after the decision to close: the unconditional tail of the handler.\<close>

definition release :: "state \<Rightarrow> state" where
  "release s =
     s\<lparr>area_cursor := [],
       body_cursor := [],
       dragPosition := None,
       is_resized := False,
       style_transform := EmptyTransform,
       style_transition := []\<rparr>"

definition onDragEnd :: "event \<Rightarrow> state \<Rightarrow> state" where
  "onDragEnd ev s =
     (if dragPosition s = None then s
      else let distanceToTheBottomInPercents = getDistanceToTheBottomInPercents (pageY ev) s
           in release (if js_lt distanceToTheBottomInPercents (Fin 75) then close s else s))"

subsection \<open>Subscriptions on the window\<close>

text \<open>
  The listener list of an event target holds a pair of type and callback at most once:
  adding a pair that is there changes nothing, removing takes the pair out.
\<close>

definition addEventListener :: "string \<Rightarrow> listener \<Rightarrow> state \<Rightarrow> state" where
  "addEventListener ty l s =
     (if (ty, l) \<in> set (window_listeners s) then s
      else s\<lparr>window_listeners := window_listeners s @ [(ty, l)]\<rparr>)"

definition removeEventListener :: "string \<Rightarrow> listener \<Rightarrow> state \<Rightarrow> state" where
  "removeEventListener ty l s = s\<lparr>window_listeners := remove1 (ty, l) (window_listeners s)\<rparr>"

definition connectedCallback :: "state \<Rightarrow> state" where
  "connectedCallback s =
     addEventListener ''touchend'' (Own Ref_onDragEnd)
      (addEventListener ''mouseup'' (Own Ref_onDragEnd)
       (addEventListener ''touchmove'' (Own Ref_onDragMove)
        (addEventListener ''mousemove'' (Own Ref_onDragMove)
         (addEventListener ''keyup'' (Own Ref_onKeyUp) s))))"

definition disconnectedCallback :: "state \<Rightarrow> state" where
  "disconnectedCallback s =
     removeEventListener ''touchend'' (Own Ref_onDragEnd)
      (removeEventListener ''mouseup'' (Own Ref_onDragEnd)
       (removeEventListener ''touchmove'' (Own Ref_onDragMove)
        (removeEventListener ''mousemove'' (Own Ref_onDragMove)
         (removeEventListener ''keyup'' (Own Ref_onKeyUp) s))))"

text \<open>
  Calling a listener runs the method it is bound to. Functions of other code are not
  modelled: they cannot reach the private fields of the element, and here they leave
  the whole state as it is.
\<close>

fun invoke :: "listener \<Rightarrow> event \<Rightarrow> state \<Rightarrow> state" where
  "invoke (Own Ref_onDragMove) ev s = onDragMove ev s"
| "invoke (Own Ref_onDragStart) ev s = onDragStart ev s"
| "invoke (Own Ref_onDragEnd) ev s = onDragEnd ev s"
| "invoke (Own Ref_onKeyUp) ev s = onKeyUp ev s"
| "invoke (Own Ref_onCloseButtonClick) ev s = onCloseButtonClick s"
| "invoke (Own Ref_onClick) ev s = onClick ev s"
| "invoke (Foreign n) ev s = s"

text \<open>
  An event that reaches the window is handed to every listener subscribed for its type,
  in the order of subscription. No handler of the sheet subscribes or unsubscribes, so
  the list read at the start is the list throughout.
\<close>

definition window_dispatchEvent :: "event \<Rightarrow> state \<Rightarrow> state" where
  "window_dispatchEvent ev s =
     fold (\<lambda>(ty, l) st. if ty = etype ev then invoke l ev st else st) (window_listeners s) s"

text \<open>
  A newly constructed element: the attributes of the markup with the role added, no
  event dispatched yet, the accessors installed on \<^verbatim>\<open>options\<close>, no drag session, no inline
  style; the inner wrapper is a node of
  its own. The layout, the style sheet and the document are whatever \<open>env\<close> holds.
\<close>

definition constructor :: "(string \<rightharpoonup> string) \<Rightarrow> node \<Rightarrow> state \<Rightarrow> state" where
  "constructor markup wrapper env =
     env\<lparr>attributes := markup(''role'' \<mapsto> ''dialog''),
         dispatched := [],
         options := Installed,
         sheet := wrapper,
         dragPosition := None,
         scaleDownTo := None,
         is_resized := False,
         style_transform := EmptyTransform,
         style_transition := [],
         area_cursor := []\<rparr>"

text \<open>An empty document with a laid-out sheet of height 400 and a style sheet that scales down to 0.9.\<close>

definition example_document :: state where
  "example_document =
     \<lparr>attributes = Map.empty, dispatched = [], options = Installed, sheet = Node 0,
      dragPosition = None,
      scaleDownTo = None, is_resized = False, style_transform = EmptyTransform,
      style_transition = [], area_cursor = [], clientHeight = 400,
      css_scale_down_to = Fin (9 / 10), contents = {Node 0, Node 1, Node 2},
      body_cursor = [], activeElement = None, window_listeners = []\<rparr>"

definition example_sheet :: state where
  "example_sheet = constructor Map.empty (Node 0) example_document"

text \<open>
  What can happen to a sheet: a call of a method, an assignment to a property, a change
  of an attribute through the element's own interface, a click, the start of a drag, an
  event on the window, a mount or an unmount. A run applies a list of these in order.
\<close>

datatype action =
  Call_show | Call_showModal | Call_close
| Assign_open jsval
| Assign_closeOnBackgroundClick jsval
| Assign_closeOnEscapeKey jsval
| Assign_options options_object
| Set_attribute string string
| Remove_attribute string
| Click event
| Close_button_click
| Drag_start event
| Window_event event
| Connected
| Disconnected

fun step :: "action \<Rightarrow> state \<Rightarrow> state" where
  "step Call_show s = show_sheet s"
| "step Call_showModal s = showModal s"
| "step Call_close s = close s"
| "step (Assign_open v) s = set_open v s"
| "step (Assign_closeOnBackgroundClick v) s = set_closeOnBackgroundClick v s"
| "step (Assign_closeOnEscapeKey v) s = set_closeOnEscapeKey v s"
| "step (Assign_options object) s = set_options object s"
| "step (Set_attribute name v) s = setAttribute name v s"
| "step (Remove_attribute name) s = removeAttribute name s"
| "step (Click ev) s = onClick ev s"
| "step Close_button_click s = onCloseButtonClick s"
| "step (Drag_start ev) s = onDragStart ev s"
| "step (Window_event ev) s = window_dispatchEvent ev s"
| "step Connected s = connectedCallback s"
| "step Disconnected s = disconnectedCallback s"

definition run :: "action list \<Rightarrow> state \<Rightarrow> state" where
  "run acts s = fold step acts s"

text \<open>The actions that put another object in the place of the installed options.\<close>

fun replaces_options :: "action \<Rightarrow> bool" where
  "replaces_options (Assign_options (Replaced background escape)) = True"
| "replaces_options a = False"

text \<open>The five subscriptions that mounting takes on the window, in the order it takes them.\<close>

definition own_subscriptions :: "(string \<times> listener) list" where
  "own_subscriptions =
     [(''keyup'', Own Ref_onKeyUp),
      (''mousemove'', Own Ref_onDragMove),
      (''touchmove'', Own Ref_onDragMove),
      (''mouseup'', Own Ref_onDragEnd),
      (''touchend'', Own Ref_onDragEnd)]"

text \<open>
  The condition in the words of the specification, to be compared with the one
  \<open>onKeyUp\<close> computes: the element that has the focus, if there is one, lies inside the sheet.
\<close>

definition focus_inside_sheet :: "state \<Rightarrow> bool" where
  "focus_inside_sheet s = (case activeElement s of None \<Rightarrow> False | Some f \<Rightarrow> f \<in> contents s)"

text \<open>Events for the examples: a pointer event at a vertical position, and a key-up event at a node.\<close>

definition pointer_at :: "real \<Rightarrow> event" where
  "pointer_at y = \<lparr>etype = ''mousemove'', key = [], target = Node 0, composedPath = [], pageY = Fin y\<rparr>"

definition key_up_at :: "string \<Rightarrow> node \<Rightarrow> event" where
  "key_up_at k n = \<lparr>etype = ''keyup'', key = k, target = n, composedPath = [n], pageY = NaN\<rparr>"

definition click_through :: "node list \<Rightarrow> event" where
  "click_through path =
     \<lparr>etype = ''click'', key = [], target = hd (path @ [Node 0]), composedPath = path, pageY = NaN\<rparr>"

text \<open>The example sheet while a node inside it has the focus.\<close>

definition focused_input :: state where
  "focused_input = example_sheet\<lparr>activeElement := Some (Node 1)\<rparr>"

text \<open>The example sheet after \<^verbatim>\<open>options.closeOnBackgroundClick = false\<close>.\<close>

definition ignoring :: state where
  "ignoring = set_closeOnBackgroundClick (Bool False) example_sheet"

text \<open>
  The drag of the scenario: on a sheet 400 high whose style sheet scales down to 0.9, a
  drag starts at the vertical position 300.
\<close>

definition scenario_start :: "state \<Rightarrow> state" where
  "scenario_start s =
     onDragStart (pointer_at 300) (s\<lparr>clientHeight := 400, css_scale_down_to := Fin (9 / 10)\<rparr>)"

text \<open>
  A window on which other code listens already, and the example sheet mounted there
  with a drag under way.
\<close>

definition busy_window :: state where
  "busy_window =
     example_sheet\<lparr>window_listeners := [(''keyup'', Foreign 1), (''mouseup'', Foreign 2)]\<rparr>"

definition dragging_mounted :: state where
  "dragging_mounted = onDragStart (pointer_at 300) (connectedCallback busy_window)"

definition mouse_up_at :: "real \<Rightarrow> event" where
  "mouse_up_at y = (pointer_at y)\<lparr>etype := ''mouseup''\<rparr>"

text \<open>The example sheet shown, and shown with the background click switched off.\<close>

definition opened :: state where
  "opened = show_sheet example_sheet"

definition opened_ignoring :: state where
  "opened_ignoring = set_closeOnBackgroundClick (Bool False) (show_sheet example_sheet)"

text \<open>
  The example sheet after \<^verbatim>\<open>sheet.options = { closeOnBackgroundClick: false,
  closeOnEscapeKey: true }\<close>.
\<close>

definition options_replaced :: state where
  "options_replaced =
     run [Assign_options (Replaced (Bool False) (Bool True))] example_sheet"

text \<open>A run that assigns flags and changes attributes but leaves the options object in place.\<close>

definition example_run :: "action list" where
  "example_run =
     [Call_show,
      Assign_closeOnBackgroundClick (Number (Fin 0)),
      Set_attribute ''ignore-escape-key'' [],
      Click (click_through [Node 5, Node 6]),
      Assign_closeOnEscapeKey (String ''yes'')]"

text \<open>The same sheet, mounted.\<close>

definition mounted_focused :: state where
  "mounted_focused = connectedCallback focused_input"

section \<open>Facts shared by the properties\<close>

subsection \<open>What show and close change\<close>

lemma close_dispatched: "dispatched (close s) = dispatched s @ [''close'']"
  by (simp add: close_def dispatchEvent_def removeAttribute_def)

lemma close_not_open: "\<not> get_open (close s)"
  by (simp add: get_open_def hasAttribute_def close_def dispatchEvent_def removeAttribute_def)

lemma close_sheet: "sheet (close s) = sheet s"
  by (simp add: close_def dispatchEvent_def removeAttribute_def)

lemma close_neq: "close s \<noteq> s"
proof
  assume "close s = s"
  then have "dispatched (close s) = dispatched s" by simp
  then show False by (simp add: close_dispatched)
qed

lemma show_dispatched: "dispatched (show_sheet s) = dispatched s @ [''open'']"
  by (simp add: show_sheet_def showModal_def dispatchEvent_def setAttribute_def)

lemma show_open: "get_open (show_sheet s)"
  by (simp add: get_open_def hasAttribute_def show_sheet_def showModal_def dispatchEvent_def
      setAttribute_def)

lemma show_neq_close: "show_sheet s \<noteq> close s"
proof
  assume "show_sheet s = close s"
  then have "dispatched (show_sheet s) = dispatched (close s)" by simp
  then show False by (simp add: show_dispatched close_dispatched)
qed

subsection \<open>The handlers, case by case\<close>

lemma onClick_cases:
  "onClick ev s =
     (if sheet s \<notin> set (composedPath ev) \<and> closeOnBackgroundClick s then close s else s)"
  by (auto simp add: onClick_def Let_def find_None_iff)

lemma onKeyUp_cases:
  "onKeyUp ev s =
     (if key ev = ''Escape'' \<and> closeOnEscapeKey s
         \<and> \<not> (target ev \<in> contents s \<and> activeElement s = Some (target ev))
      then close s else s)"
  by (auto simp add: onKeyUp_def elementContains_def isFocused_def Let_def)

lemma release_dispatched: "dispatched (release s) = dispatched s"
  by (simp add: release_def)

lemma release_get_open: "get_open (release s) = get_open s"
  by (simp add: release_def get_open_def hasAttribute_def)

lemma onDragEnd_active:
  "dragPosition s \<noteq> None \<Longrightarrow>
   onDragEnd ev s =
     release (if js_lt (getDistanceToTheBottomInPercents (pageY ev) s) (Fin 75) then close s else s)"
  by (cases "dragPosition s") (simp_all add: onDragEnd_def Let_def)

lemma onDragMove_frame:
  "dragPosition (onDragMove ev s) = dragPosition s"
  "clientHeight (onDragMove ev s) = clientHeight s"
  "dispatched (onDragMove ev s) = dispatched s"
  by (simp_all add: onDragMove_def dragSheet_def Let_def)

lemma started_session: "dragPosition (onDragStart ev s) = Some (pageY ev)"
  by (simp add: onDragStart_def)

subsection \<open>The listeners of the window\<close>

lemma addEventListener_listeners:
  "window_listeners (addEventListener ty l s) =
     (if (ty, l) \<in> set (window_listeners s) then window_listeners s
      else window_listeners s @ [(ty, l)])"
  by (simp add: addEventListener_def)

lemma connectedCallback_only_listeners:
  "connectedCallback s = s\<lparr>window_listeners := window_listeners (connectedCallback s)\<rparr>"
  by (simp add: connectedCallback_def addEventListener_def)

lemma connectedCallback_listeners:
  assumes "\<forall>ty m. (ty, Own m) \<notin> set (window_listeners s)"
  shows "window_listeners (connectedCallback s) = window_listeners s @ own_subscriptions"
  using assms by (simp add: connectedCallback_def addEventListener_listeners own_subscriptions_def)

lemma disconnectedCallback_listeners:
  "window_listeners (disconnectedCallback s) =
     remove1 (''touchend'', Own Ref_onDragEnd)
      (remove1 (''mouseup'', Own Ref_onDragEnd)
       (remove1 (''touchmove'', Own Ref_onDragMove)
        (remove1 (''mousemove'', Own Ref_onDragMove)
         (remove1 (''keyup'', Own Ref_onKeyUp) (window_listeners s)))))"
  by (simp add: disconnectedCallback_def removeEventListener_def)

lemma disconnectedCallback_only_listeners:
  "disconnectedCallback s = s\<lparr>window_listeners := window_listeners (disconnectedCallback s)\<rparr>"
  by (simp add: disconnectedCallback_def removeEventListener_def)

lemma remove_own_subscriptions:
  assumes "\<forall>ty m. (ty, Own m) \<notin> set ls"
  shows "remove1 (''touchend'', Own Ref_onDragEnd)
      (remove1 (''mouseup'', Own Ref_onDragEnd)
       (remove1 (''touchmove'', Own Ref_onDragMove)
        (remove1 (''mousemove'', Own Ref_onDragMove)
         (remove1 (''keyup'', Own Ref_onKeyUp) (ls @ own_subscriptions))))) = ls"
  using assms by (simp add: remove1_append own_subscriptions_def)

lemma unmounted_listeners:
  assumes "\<forall>ty m. (ty, Own m) \<notin> set (window_listeners s)"
    and "window_listeners s1 = window_listeners (connectedCallback s)"
  shows "window_listeners (disconnectedCallback s1) = window_listeners s"
  using assms
  by (simp add: disconnectedCallback_listeners connectedCallback_listeners remove_own_subscriptions)

text \<open>Listeners of other code leave the state alone, so a window without own listeners does.\<close>

lemma fold_foreign:
  "\<forall>ty m. (ty, Own m) \<notin> set ls \<Longrightarrow>
   fold (\<lambda>(ty, l) st. if ty = etype ev then invoke l ev st else st) ls st = st"
proof (induction ls arbitrary: st)
  case Nil
  show ?case by simp
next
  case (Cons p ls)
  obtain ty l where p: "p = (ty, l)" by (cases p)
  from Cons.prems p have "\<exists>n. l = Foreign n" by (cases l) auto
  with Cons p show ?case by auto
qed

lemma dispatch_foreign:
  "\<forall>ty m. (ty, Own m) \<notin> set (window_listeners s) \<Longrightarrow> window_dispatchEvent ev s = s"
  by (simp add: window_dispatchEvent_def fold_foreign)

lemma dispatch_all_foreign:
  "\<forall>ty m. (ty, Own m) \<notin> set (window_listeners s) \<Longrightarrow> fold window_dispatchEvent evs s = s"
  by (induction evs) (simp_all add: dispatch_foreign)

text \<open>On a mounted sheet an event of the window reaches the handler subscribed for its type.\<close>

lemma mounted_dispatch:
  assumes "\<forall>ty m. (ty, Own m) \<notin> set (window_listeners s)"
  shows "window_dispatchEvent ev (connectedCallback s) =
     (if etype ev = ''keyup'' then onKeyUp ev (connectedCallback s)
      else if etype ev = ''mousemove'' \<or> etype ev = ''touchmove''
        then onDragMove ev (connectedCallback s)
      else if etype ev = ''mouseup'' \<or> etype ev = ''touchend''
        then onDragEnd ev (connectedCallback s)
      else connectedCallback s)"
  using assms
  by (auto simp add: window_dispatchEvent_def connectedCallback_listeners fold_foreign
      own_subscriptions_def)

subsection \<open>What leaves the options object alone\<close>

lemma options_attribute:
  "options (setAttribute name v s) = options s"
  "options (removeAttribute name s) = options s"
  "options (dispatchEvent name s) = options s"
  by (simp_all add: setAttribute_def removeAttribute_def dispatchEvent_def)

lemma options_show_close:
  "options (showModal s) = options s"
  "options (show_sheet s) = options s"
  "options (close s) = options s"
  "options (set_open v s) = options s"
  by (simp_all add: showModal_def show_sheet_def close_def set_open_def options_attribute)

lemma options_handlers:
  "options (onClick ev s) = options s"
  "options (onCloseButtonClick s) = options s"
  "options (onKeyUp ev s) = options s"
  "options (onDragStart ev s) = options s"
  "options (onDragMove ev s) = options s"
  "options (onDragEnd ev s) = options s"
  by (simp_all add: onClick_def onCloseButtonClick_def onKeyUp_def onDragStart_def
      onDragMove_def dragSheet_def onDragEnd_def release_def Let_def options_show_close)

lemma options_invoke: "options (invoke l ev s) = options s"
proof (cases l)
  case (Own m)
  then show ?thesis by (cases m) (simp_all add: options_handlers)
next
  case (Foreign n)
  then show ?thesis by simp
qed

lemma options_fold_invoke:
  "options (fold (\<lambda>(ty, l) st. if ty = etype ev then invoke l ev st else st) ls st) = options st"
  by (induction ls arbitrary: st) (auto simp add: options_invoke)

lemma options_window_dispatchEvent: "options (window_dispatchEvent ev s) = options s"
  by (simp add: window_dispatchEvent_def options_fold_invoke)

lemma options_mount:
  "options (connectedCallback s) = options s"
  "options (disconnectedCallback s) = options s"
  by (subst connectedCallback_only_listeners, simp)
    (subst disconnectedCallback_only_listeners, simp)

subsection \<open>The examples\<close>

lemma example_sheet_closed: "\<not> get_open example_sheet"
  by (simp add: get_open_def hasAttribute_def example_sheet_def constructor_def)

lemma example_sheet_log: "dispatched example_sheet = []"
  by (simp add: example_sheet_def constructor_def)

lemma example_sheet_wrapper: "sheet example_sheet = Node 0"
  by (simp add: example_sheet_def constructor_def)

lemma example_sheet_flags: "closeOnBackgroundClick example_sheet" "closeOnEscapeKey example_sheet"
  by (simp_all add: closeOnBackgroundClick_def closeOnEscapeKey_def hasAttribute_def
      example_sheet_def constructor_def)

lemma example_sheet_focus: "\<not> focus_inside_sheet example_sheet"
  by (simp add: focus_inside_sheet_def example_sheet_def constructor_def example_document_def)

lemma pageY_pointer_at: "pageY (pointer_at y) = Fin y"
  by (simp add: pointer_at_def)

lemma path_click_through: "composedPath (click_through p) = p"
  by (simp add: click_through_def)

lemma key_up_at_fields: "key (key_up_at k n) = k" "target (key_up_at k n) = n"
    "etype (key_up_at k n) = ''keyup''"
  by (simp_all add: key_up_at_def)

section \<open>Sequences of show and close\<close>

lemma perform_dispatched: "dispatched (perform c s) = dispatched s @ [notification c]"
  by (cases c) (simp_all add: show_dispatched close_dispatched)

lemma perform_get_open: "get_open (perform c s) = (c = Show)"
  by (cases c) (simp_all add: show_open close_not_open)

lemma perform_all_snoc: "perform_all (cs @ [c]) s = perform c (perform_all cs s)"
  by (simp add: perform_all_def)

lemma perform_all_dispatched: "dispatched (perform_all cs s) = dispatched s @ map notification cs"
proof (induction cs rule: rev_induct)
  case Nil
  show ?case by (simp add: perform_all_def)
next
  case (snoc c cs)
  then show ?case by (simp add: perform_all_snoc perform_dispatched)
qed

lemma perform_all_get_open: "cs \<noteq> [] \<Longrightarrow> get_open (perform_all cs s) = (last cs = Show)"
  by (cases cs rule: rev_cases) (simp_all add: perform_all_snoc perform_get_open)

text \<open>
  C1. Run any sequence of \<^verbatim>\<open>show()\<close> and \<^verbatim>\<open>close()\<close> calls on a sheet. The events dispatched
  are the ones dispatched before, followed by one notification per call, in the order of
  the calls: \<^verbatim>\<open>open\<close> for a \<^verbatim>\<open>show()\<close>, \<^verbatim>\<open>close\<close> for a \<^verbatim>\<open>close()\<close>. If the sequence is not
  empty, the \<^verbatim>\<open>open\<close> attribute is present at the end exactly when the last call was
  \<^verbatim>\<open>show()\<close>. A \<^verbatim>\<open>close()\<close> on a sheet that is already closed dispatches its \<^verbatim>\<open>close\<close> all the
  same, and the sheet stays closed.
\<close>

theorem show_close_sequences:
  "dispatched (perform_all cs s) = dispatched s @ map notification cs
   \<and> (cs \<noteq> [] \<longrightarrow> get_open (perform_all cs s) = (last cs = Show))
   \<and> (\<not> get_open s \<longrightarrow>
        dispatched (close s) = dispatched s @ [''close''] \<and> \<not> get_open (close s))"
  using perform_all_dispatched perform_all_get_open close_dispatched close_not_open by blast

theorem show_close_sequences_witness:
  "[Show, Close, Close] \<noteq> [] \<and> \<not> get_open example_sheet
   \<and> dispatched (perform_all [Show, Close, Close] example_sheet) = [''open'', ''close'', ''close'']
   \<and> get_open (perform_all [Show, Close, Close] example_sheet) = (last [Show, Close, Close] = Show)
   \<and> dispatched (close example_sheet) = [''close'']
   \<and> \<not> get_open (close example_sheet)"
  using show_close_sequences [of "[Show, Close, Close]" example_sheet]
    example_sheet_closed example_sheet_log
  by simp

section \<open>The end of a drag\<close>

lemma example_distance_400:
  "getDistanceToTheBottomInPercents (pageY (pointer_at 400))
     (onDragStart (pointer_at 300) example_sheet) = Fin 75"
  by (simp add: getDistanceToTheBottomInPercents_def onDragStart_def pointer_at_def
      example_sheet_def constructor_def example_document_def js_sub_def Let_def)

lemma example_distance_401:
  "getDistanceToTheBottomInPercents (pageY (pointer_at 401))
     (onDragStart (pointer_at 300) example_sheet) = Fin (299 / 4)"
  by (simp add: getDistanceToTheBottomInPercents_def onDragStart_def pointer_at_def
      example_sheet_def constructor_def example_document_def js_sub_def Let_def)

text \<open>
  C2. Let a drag session be active when the drag ends, and let \<open>d\<close> be the clamped
  distance to the bottom computed for the position of the release. If \<open>d < 75\<close> the
  handler calls \<^verbatim>\<open>close()\<close> before it resets the session: one \<^verbatim>\<open>close\<close> is dispatched and the
  \<^verbatim>\<open>open\<close> attribute is gone. Otherwise (\<open>d\<close> is 75 or more, or is not a number) it only
  resets the session: nothing is dispatched and the \<^verbatim>\<open>open\<close> attribute is as it was. So
  the sheet is closed exactly when \<open>d < 75\<close>, and at \<open>d = 75\<close> it is not.
\<close>

theorem drag_end_threshold:
  assumes "dragPosition s \<noteq> None"
  shows "(js_lt (getDistanceToTheBottomInPercents (pageY ev) s) (Fin 75)
            \<longrightarrow> onDragEnd ev s = release (close s)
                \<and> dispatched (onDragEnd ev s) = dispatched s @ [''close'']
                \<and> \<not> get_open (onDragEnd ev s))
       \<and> (\<not> js_lt (getDistanceToTheBottomInPercents (pageY ev) s) (Fin 75)
            \<longrightarrow> onDragEnd ev s = release s
                \<and> dispatched (onDragEnd ev s) = dispatched s
                \<and> get_open (onDragEnd ev s) = get_open s)
       \<and> ((dispatched (onDragEnd ev s) = dispatched s @ [''close''])
            = js_lt (getDistanceToTheBottomInPercents (pageY ev) s) (Fin 75))
       \<and> (\<forall>x. getDistanceToTheBottomInPercents (pageY ev) s = Fin x \<longrightarrow>
             (dispatched (onDragEnd ev s) = dispatched s @ [''close'']) = (x < 75))"
  using assms
  by (auto simp add: onDragEnd_active release_dispatched release_get_open
      close_dispatched close_not_open)

theorem drag_end_threshold_witness:
  "dragPosition (onDragStart (pointer_at 300) example_sheet) \<noteq> None
   \<and> getDistanceToTheBottomInPercents (pageY (pointer_at 400))
        (onDragStart (pointer_at 300) example_sheet) = Fin 75
   \<and> \<not> js_lt (Fin 75) (Fin 75)
   \<and> onDragEnd (pointer_at 400) (onDragStart (pointer_at 300) example_sheet)
       = release (onDragStart (pointer_at 300) example_sheet)
   \<and> dispatched (onDragEnd (pointer_at 400) (onDragStart (pointer_at 300) example_sheet)) = []
   \<and> getDistanceToTheBottomInPercents (pageY (pointer_at 401))
        (onDragStart (pointer_at 300) example_sheet) = Fin (299 / 4)
   \<and> dispatched (onDragEnd (pointer_at 401) (onDragStart (pointer_at 300) example_sheet))
       = [''close'']"
proof -
  have started: "dragPosition (onDragStart (pointer_at 300) example_sheet) \<noteq> None"
    by (simp add: started_session)
  have log: "dispatched (onDragStart (pointer_at 300) example_sheet) = []"
    by (simp add: onDragStart_def example_sheet_log)
  show ?thesis
    using drag_end_threshold [OF started, of "pointer_at 400"]
      drag_end_threshold [OF started, of "pointer_at 401"]
      started example_distance_400 example_distance_401 log
    by (simp add: release_dispatched close_dispatched)
qed

section \<open>The Escape key\<close>

lemma focus_inside_target:
  "focus_inside_sheet s \<longrightarrow> activeElement s = Some (target ev) \<Longrightarrow>
   (target ev \<in> contents s \<and> activeElement s = Some (target ev)) = focus_inside_sheet s"
  by (auto simp add: focus_inside_sheet_def split: option.splits)

lemma focused_input_fresh: "\<forall>ty m. (ty, Own m) \<notin> set (window_listeners focused_input)"
  by (simp add: focused_input_def example_sheet_def constructor_def example_document_def)

lemma focused_input_flag: "closeOnEscapeKey focused_input"
  by (simp add: focused_input_def closeOnEscapeKey_def hasAttribute_def example_sheet_def
      constructor_def)

lemma focused_input_inside: "focus_inside_sheet focused_input"
  by (simp add: focused_input_def focus_inside_sheet_def example_sheet_def constructor_def
      example_document_def)

lemma connectedCallback_fields:
  "attributes (connectedCallback s) = attributes s"
  "contents (connectedCallback s) = contents s"
  "activeElement (connectedCallback s) = activeElement s"
  "dragPosition (connectedCallback s) = dragPosition s"
  by (subst connectedCallback_only_listeners, simp)+

lemma connectedCallback_hasAttribute:
  "hasAttribute name (connectedCallback s) = hasAttribute name s"
  by (simp add: hasAttribute_def connectedCallback_fields)

lemma connectedCallback_frame:
  "closeOnEscapeKey (connectedCallback s) = closeOnEscapeKey s"
  "focus_inside_sheet (connectedCallback s) = focus_inside_sheet s"
  by (simp_all add: closeOnEscapeKey_def connectedCallback_hasAttribute options_mount
      focus_inside_sheet_def connectedCallback_fields
      split: option.splits options_object.splits)

lemma mounted_focused_closes:
  "window_dispatchEvent (key_up_at ''Escape'' (Node 7)) mounted_focused = close mounted_focused"
proof -
  have "window_dispatchEvent (key_up_at ''Escape'' (Node 7)) mounted_focused
      = onKeyUp (key_up_at ''Escape'' (Node 7)) mounted_focused"
    unfolding mounted_focused_def
    by (simp add: mounted_dispatch [OF focused_input_fresh] key_up_at_fields)
  also have "\<dots> = close mounted_focused"
    using focused_input_flag
    by (simp add: onKeyUp_cases key_up_at_fields mounted_focused_def connectedCallback_frame
        connectedCallback_fields)
      (simp add: focused_input_def example_sheet_def constructor_def example_document_def)
  finally show ?thesis .
qed

text \<open>
  C3, as the claim states it, fails. The sheet is mounted, a node inside it has the
  focus, and an Escape key-up reaches the window whose target is a node outside the sheet
  (a script dispatched it on the body, say). The handler looks at the target only: it
  is not inside the sheet, so the sheet is closed, although the focused element is
  inside.
\<close>

theorem escape_key_counterexample:
  "\<not> ((window_dispatchEvent (key_up_at ''Escape'' (Node 7)) mounted_focused = close mounted_focused)
       = (key (key_up_at ''Escape'' (Node 7)) = ''Escape'' \<and> closeOnEscapeKey mounted_focused
          \<and> \<not> focus_inside_sheet mounted_focused))"
  using mounted_focused_closes focused_input_inside
  by (simp add: mounted_focused_def connectedCallback_frame)

text \<open>
  C3, amended. A key-up event closes the sheet if and only if the key is Escape,
  \<open>closeOnEscapeKey\<close> is true, and the target of the event is not a focused element inside
  the sheet; otherwise the handler changes nothing. For an event whose target is the
  focused element whenever the focus is inside the sheet (as it is for a key the user
  presses), this is the rule of the claim: the sheet closes if and only if the key is
  Escape, the flag is true and the focused element is not inside the sheet. A mounted
  sheet receives every \<^verbatim>\<open>keyup\<close> of the window in this handler. When the handler closes
  the sheet, the \<^verbatim>\<open>open\<close> attribute is gone afterwards and one \<^verbatim>\<open>close\<close> has been dispatched.
\<close>

theorem escape_key_closes:
  "((onKeyUp ev s = close s) =
      (key ev = ''Escape'' \<and> closeOnEscapeKey s
       \<and> \<not> (elementContains (target ev) s \<and> isFocused (target ev) s)))
   \<and> (onKeyUp ev s \<noteq> close s \<longrightarrow> onKeyUp ev s = s)
   \<and> ((focus_inside_sheet s \<longrightarrow> activeElement s = Some (target ev)) \<longrightarrow>
        (onKeyUp ev s = close s) =
          (key ev = ''Escape'' \<and> closeOnEscapeKey s \<and> \<not> focus_inside_sheet s))
   \<and> ((\<forall>ty m. (ty, Own m) \<notin> set (window_listeners s0)) \<and> etype ev = ''keyup'' \<longrightarrow>
        window_dispatchEvent ev (connectedCallback s0) = onKeyUp ev (connectedCallback s0))
   \<and> (onKeyUp ev s = close s \<longrightarrow>
        \<not> get_open (onKeyUp ev s) \<and> dispatched (onKeyUp ev s) = dispatched s @ [''close''])"
proof -
  have a: "(onKeyUp ev s = close s) =
      (key ev = ''Escape'' \<and> closeOnEscapeKey s
       \<and> \<not> (target ev \<in> contents s \<and> activeElement s = Some (target ev)))"
    using close_neq [of s] by (simp add: onKeyUp_cases)
  have b: "onKeyUp ev s \<noteq> close s \<longrightarrow> onKeyUp ev s = s"
    by (simp add: onKeyUp_cases)
  have c: "(\<forall>ty m. (ty, Own m) \<notin> set (window_listeners s0)) \<and> etype ev = ''keyup'' \<longrightarrow>
        window_dispatchEvent ev (connectedCallback s0) = onKeyUp ev (connectedCallback s0)"
    by (simp add: mounted_dispatch)
  have d: "onKeyUp ev s = close s \<longrightarrow>
        \<not> get_open (onKeyUp ev s) \<and> dispatched (onKeyUp ev s) = dispatched s @ [''close'']"
    by (simp add: close_not_open close_dispatched)
  show ?thesis
    using a b c d focus_inside_target [of s ev]
    unfolding elementContains_def isFocused_def by blast
qed

lemma opened_fields:
  "get_open opened" "dispatched opened = [''open'']" "sheet opened = Node 0"
  "closeOnEscapeKey opened" "closeOnBackgroundClick opened"
  "contents opened = {Node 0, Node 1, Node 2}" "activeElement opened = None"
  by (simp_all add: opened_def show_open show_dispatched example_sheet_log closeOnEscapeKey_def
      closeOnBackgroundClick_def options_show_close)
    (simp_all add: show_sheet_def showModal_def dispatchEvent_def setAttribute_def hasAttribute_def
      example_sheet_def constructor_def example_document_def)

theorem escape_key_closes_witness:
  "(focus_inside_sheet focused_input
    \<and> activeElement focused_input = Some (target (key_up_at ''Escape'' (Node 1)))
    \<and> onKeyUp (key_up_at ''Escape'' (Node 1)) focused_input = focused_input)
   \<and> (\<not> focus_inside_sheet example_sheet
    \<and> onKeyUp (key_up_at ''Escape'' (Node 7)) example_sheet = close example_sheet)
   \<and> (\<forall>ty m. (ty, Own m) \<notin> set (window_listeners focused_input))
   \<and> etype (key_up_at ''Escape'' (Node 1)) = ''keyup''
   \<and> window_dispatchEvent (key_up_at ''Escape'' (Node 1)) (connectedCallback focused_input)
       = onKeyUp (key_up_at ''Escape'' (Node 1)) (connectedCallback focused_input)
   \<and> get_open opened
   \<and> onKeyUp (key_up_at ''Escape'' (Node 7)) opened = close opened
   \<and> \<not> get_open (onKeyUp (key_up_at ''Escape'' (Node 7)) opened)
   \<and> dispatched (onKeyUp (key_up_at ''Escape'' (Node 7)) opened) = [''open'', ''close'']"
proof -
  have t: "activeElement focused_input = Some (target (key_up_at ''Escape'' (Node 1)))"
    by (simp add: focused_input_def key_up_at_def)
  have o: "onKeyUp (key_up_at ''Escape'' (Node 7)) opened = close opened"
    by (simp add: onKeyUp_cases key_up_at_fields opened_fields)
  have first: "(focus_inside_sheet focused_input
    \<and> activeElement focused_input = Some (target (key_up_at ''Escape'' (Node 1)))
    \<and> onKeyUp (key_up_at ''Escape'' (Node 1)) focused_input = focused_input)
   \<and> (\<not> focus_inside_sheet example_sheet
    \<and> onKeyUp (key_up_at ''Escape'' (Node 7)) example_sheet = close example_sheet)
   \<and> (\<forall>ty m. (ty, Own m) \<notin> set (window_listeners focused_input))
   \<and> etype (key_up_at ''Escape'' (Node 1)) = ''keyup''
   \<and> window_dispatchEvent (key_up_at ''Escape'' (Node 1)) (connectedCallback focused_input)
       = onKeyUp (key_up_at ''Escape'' (Node 1)) (connectedCallback focused_input)"
    using escape_key_closes [of "key_up_at ''Escape'' (Node 1)" focused_input focused_input]
      escape_key_closes [of "key_up_at ''Escape'' (Node 7)" example_sheet focused_input]
      t key_up_at_fields example_sheet_focus example_sheet_flags focused_input_inside
      focused_input_flag focused_input_fresh
    by auto
  have second: "\<not> get_open (onKeyUp (key_up_at ''Escape'' (Node 7)) opened)
     \<and> dispatched (onKeyUp (key_up_at ''Escape'' (Node 7)) opened) = [''open'', ''close'']"
    using escape_key_closes [of "key_up_at ''Escape'' (Node 7)" opened focused_input] o
    by (simp add: opened_fields)
  show ?thesis
    using first second o opened_fields(1) by blast
qed

section \<open>Clicks\<close>

lemma setters_frame:
  "dispatched (set_closeOnBackgroundClick v s) = dispatched s"
  "dispatched (set_closeOnEscapeKey v s) = dispatched s"
  by (simp_all add: set_closeOnBackgroundClick_def set_closeOnEscapeKey_def setAttribute_def
      removeAttribute_def split: options_object.splits)

lemma opened_ignoring_fields:
  "get_open opened_ignoring" "dispatched opened_ignoring = [''open'']"
  "sheet opened_ignoring = Node 0" "\<not> closeOnBackgroundClick opened_ignoring"
  by (simp_all add: opened_ignoring_def setters_frame show_dispatched example_sheet_log)
    (simp_all add: set_closeOnBackgroundClick_def closeOnBackgroundClick_def get_open_def
      show_sheet_def showModal_def dispatchEvent_def setAttribute_def hasAttribute_def
      example_sheet_def constructor_def example_document_def)

text \<open>
  C4. A click whose composed path does not contain the inner wrapper of the sheet closes
  the sheet if and only if \<open>closeOnBackgroundClick\<close> is true: with the flag true the handler
  calls \<^verbatim>\<open>close()\<close>, after which the \<^verbatim>\<open>open\<close> attribute is gone and one \<^verbatim>\<open>close\<close> has been
  dispatched; with the flag false it changes nothing, so an open sheet stays open. The
  handler of the close button calls \<^verbatim>\<open>close()\<close> whatever values the two flags were given:
  the \<^verbatim>\<open>open\<close> attribute is gone and one \<^verbatim>\<open>close\<close> has been dispatched. When that click then
  reaches the host, its path contains the wrapper, so the host's handler adds nothing.
\<close>

theorem click_closes:
  "(sheet s \<notin> set (composedPath ev) \<longrightarrow>
      (onClick ev s = close s) = closeOnBackgroundClick s
      \<and> (closeOnBackgroundClick s \<longrightarrow>
            \<not> get_open (onClick ev s) \<and> dispatched (onClick ev s) = dispatched s @ [''close''])
      \<and> (\<not> closeOnBackgroundClick s \<longrightarrow>
            onClick ev s = s \<and> get_open (onClick ev s) = get_open s
            \<and> dispatched (onClick ev s) = dispatched s))
   \<and> onCloseButtonClick s = close s
   \<and> \<not> get_open (onCloseButtonClick s)
   \<and> dispatched (onCloseButtonClick s) = dispatched s @ [''close'']
   \<and> \<not> get_open (onCloseButtonClick (set_closeOnBackgroundClick v (set_closeOnEscapeKey w s)))
   \<and> dispatched (onCloseButtonClick (set_closeOnBackgroundClick v (set_closeOnEscapeKey w s)))
       = dispatched s @ [''close'']
   \<and> (sheet s \<in> set (composedPath ev) \<longrightarrow>
        onClick ev (onCloseButtonClick s) = close s
        \<and> \<not> get_open (onClick ev (onCloseButtonClick s))
        \<and> dispatched (onClick ev (onCloseButtonClick s)) = dispatched s @ [''close''])"
  using close_neq [of s]
  by (simp add: onClick_cases onCloseButtonClick_def close_sheet close_not_open close_dispatched
      setters_frame)

theorem click_closes_witness:
  "get_open opened
   \<and> sheet opened \<notin> set (composedPath (click_through [Node 5, Node 6]))
   \<and> closeOnBackgroundClick opened
   \<and> \<not> get_open (onClick (click_through [Node 5, Node 6]) opened)
   \<and> dispatched (onClick (click_through [Node 5, Node 6]) opened) = [''open'', ''close'']
   \<and> get_open opened_ignoring
   \<and> sheet opened_ignoring \<notin> set (composedPath (click_through [Node 5, Node 6]))
   \<and> \<not> closeOnBackgroundClick opened_ignoring
   \<and> get_open (onClick (click_through [Node 5, Node 6]) opened_ignoring)
   \<and> dispatched (onClick (click_through [Node 5, Node 6]) opened_ignoring) = [''open'']
   \<and> \<not> get_open (onCloseButtonClick opened_ignoring)
   \<and> dispatched (onCloseButtonClick opened_ignoring) = [''open'', ''close'']
   \<and> sheet opened_ignoring \<in> set (composedPath (click_through [Node 2, Node 0, Node 6]))
   \<and> dispatched (onClick (click_through [Node 2, Node 0, Node 6])
        (onCloseButtonClick opened_ignoring)) = [''open'', ''close'']"
proof -
  let ?bg = "click_through [Node 5, Node 6]"
  let ?btn = "click_through [Node 2, Node 0, Node 6]"
  have out: "sheet opened \<notin> set (composedPath ?bg)"
    "sheet opened_ignoring \<notin> set (composedPath ?bg)"
    and inside: "sheet opened_ignoring \<in> set (composedPath ?btn)"
    by (simp_all add: path_click_through opened_fields opened_ignoring_fields)
  have "\<not> get_open (onClick ?bg opened)
      \<and> dispatched (onClick ?bg opened) = dispatched opened @ [''close'']"
    using click_closes [of opened ?bg Undefined Undefined] out opened_fields(5) by blast
  then have a: "\<not> get_open (onClick ?bg opened)
      \<and> dispatched (onClick ?bg opened) = [''open'', ''close'']"
    by (simp add: opened_fields)
  have "get_open (onClick ?bg opened_ignoring) = get_open opened_ignoring
      \<and> dispatched (onClick ?bg opened_ignoring) = dispatched opened_ignoring"
    using click_closes [of opened_ignoring ?bg Undefined Undefined] out opened_ignoring_fields(4)
    by blast
  then have b: "get_open (onClick ?bg opened_ignoring)
      \<and> dispatched (onClick ?bg opened_ignoring) = [''open'']"
    by (simp add: opened_ignoring_fields)
  have "\<not> get_open (onCloseButtonClick opened_ignoring)
      \<and> dispatched (onCloseButtonClick opened_ignoring) = dispatched opened_ignoring @ [''close'']
      \<and> dispatched (onClick ?btn (onCloseButtonClick opened_ignoring))
          = dispatched opened_ignoring @ [''close'']"
    using click_closes [of opened_ignoring ?btn Undefined Undefined] inside by blast
  then have c: "\<not> get_open (onCloseButtonClick opened_ignoring)
      \<and> dispatched (onCloseButtonClick opened_ignoring) = [''open'', ''close'']
      \<and> dispatched (onClick ?btn (onCloseButtonClick opened_ignoring)) = [''open'', ''close'']"
    by (simp add: opened_ignoring_fields)
  show ?thesis
    using a b c out inside opened_fields(1,5) opened_ignoring_fields(1,4) by blast
qed

section \<open>Assigning the open property\<close>

lemma truthy_not_false: "Boolean v \<Longrightarrow> v \<noteq> Bool False \<and> v \<noteq> Undefined"
  by (cases v) auto

text \<open>
  C5, as the claim states it, fails: \<^verbatim>\<open>null\<close> is falsy, yet assigning it to \<^verbatim>\<open>open\<close> shows
  the sheet. The setter compares the value with \<^verbatim>\<open>false\<close> and \<^verbatim>\<open>undefined\<close> and with nothing
  else.
\<close>

theorem set_open_counterexample:
  "\<not> Boolean Null
   \<and> set_open Null example_sheet \<noteq> close example_sheet
   \<and> set_open Null example_sheet = show_sheet example_sheet
   \<and> get_open (set_open Null example_sheet)"
  using show_neq_close [of example_sheet] show_open [of example_sheet]
  by (simp add: set_open_def)

text \<open>
  C5, amended. Assigning \<open>v\<close> to \<^verbatim>\<open>open\<close> is \<^verbatim>\<open>close()\<close> when \<open>v\<close> is \<^verbatim>\<open>false\<close> or \<^verbatim>\<open>undefined\<close>,
  and \<^verbatim>\<open>show()\<close> for every other value. So every truthy value shows the sheet, and so do
  the falsy values \<^verbatim>\<open>null\<close>, \<^verbatim>\<open>0\<close>, \<^verbatim>\<open>NaN\<close> and the empty string.
\<close>

theorem set_open_rule:
  "(Boolean v \<longrightarrow> set_open v s = show_sheet s)
   \<and> set_open (Bool False) s = close s
   \<and> set_open Undefined s = close s
   \<and> (v \<noteq> Bool False \<and> v \<noteq> Undefined \<longrightarrow> set_open v s = show_sheet s)
   \<and> set_open Null s = show_sheet s
   \<and> set_open (Number (Fin 0)) s = show_sheet s
   \<and> set_open (Number NaN) s = show_sheet s
   \<and> set_open (String []) s = show_sheet s"
  using truthy_not_false [of v] by (simp add: set_open_def)

theorem set_open_rule_witness:
  "Boolean (Bool True) \<and> set_open (Bool True) example_sheet = show_sheet example_sheet
   \<and> get_open (set_open (Bool True) example_sheet)
   \<and> Null \<noteq> Bool False \<and> Null \<noteq> Undefined \<and> \<not> Boolean Null
   \<and> set_open Null example_sheet = show_sheet example_sheet
   \<and> \<not> get_open (set_open (Bool False) example_sheet)
   \<and> \<not> get_open (set_open Undefined example_sheet)"
  using set_open_rule [of "Bool True" example_sheet] set_open_rule [of Null example_sheet]
    show_open [of example_sheet] close_not_open [of example_sheet]
  by simp

section \<open>The drag scenario\<close>

lemma scenario_fields:
  "dragPosition (scenario_start s) = Some (Fin 300)"
  "scaleDownTo (scenario_start s) = Some (Fin (9 / 10))"
  "clientHeight (scenario_start s) = 400"
  "dispatched (scenario_start s) = dispatched s"
  by (simp_all add: scenario_start_def onDragStart_def pointer_at_def)

lemma scenario_distance_200:
  "getDistanceToTheBottomInPercents (Fin 200) (scenario_start s) = Fin 100"
  by (simp add: getDistanceToTheBottomInPercents_def scenario_fields js_sub_def Let_def)

lemma scenario_distance_500:
  "getDistanceToTheBottomInPercents (Fin 500) (scenario_start s) = Fin 50"
  by (simp add: getDistanceToTheBottomInPercents_def scenario_fields js_sub_def Let_def)

lemma scale_at_50: "mapNumber (Fin 50) (Fin 0, Fin 100) (Fin (9 / 10), Fin 1) = Fin (95 / 100)"
  by (simp add: mapNumber_def js_sub_def)

lemma scale_at_100: "mapNumber (Fin 100) (Fin 0, Fin 100) (Fin (9 / 10), Fin 1) = Fin 1"
  by (simp add: mapNumber_def js_sub_def)

lemma scenario_move_200:
  "style_transform (onDragMove (pointer_at 200) (scenario_start s))
     = TranslateY_Scale (Fin 0) (Fin 1)"
  by (simp add: onDragMove_def dragSheet_def scenario_fields scenario_distance_200
      pageY_pointer_at scale_at_100 js_sub_def Let_def)

lemma scenario_move_500:
  "style_transform (onDragMove (pointer_at 500) (scenario_start s))
     = TranslateY_Scale (Fin 50) (Fin (95 / 100))"
  by (simp add: onDragMove_def dragSheet_def scenario_fields scenario_distance_500
      pageY_pointer_at scale_at_50 js_sub_def Let_def)

lemma distance_after_move:
  "getDistanceToTheBottomInPercents y (onDragMove ev s) = getDistanceToTheBottomInPercents y s"
  by (simp add: getDistanceToTheBottomInPercents_def onDragMove_frame)

text \<open>
  C6. A drag starts at 300 on a sheet of height 400 with \<open>scaleDownTo = 0.9\<close>. A move to
  200: \<open>deltaY\<close> is 100, the distance before clamping is 125, clamped 100, and the transform
  is \<^verbatim>\<open>translateY(0%) scale(1)\<close>. A move to 500: \<open>deltaY\<close> is -200, the distance is 50, and
  the transform is \<^verbatim>\<open>translateY(50%) scale(0.95)\<close>, the scale being \<open>mapNumber\<close> of 50 from
  \<open>[0, 100]\<close> onto \<open>[0.9, 1]\<close>. Releasing there closes the sheet, because 50 is below 75.
\<close>

theorem drag_scenario:
  "dragPosition (scenario_start s) = Some (Fin 300)
   \<and> scaleDownTo (scenario_start s) = Some (Fin (9 / 10))
   \<and> js_sub (Fin 300) (Fin 200) = Fin 100
   \<and> js_add (Fin 100) (js_mul (js_div (Fin 100) (Fin 400)) (Fin 100)) = Fin 125
   \<and> Math_max (Fin 0) (Math_min (Fin 100) (Fin 125)) = Fin 100
   \<and> getDistanceToTheBottomInPercents (pageY (pointer_at 200)) (scenario_start s) = Fin 100
   \<and> style_transform (onDragMove (pointer_at 200) (scenario_start s))
       = TranslateY_Scale (Fin 0) (Fin 1)
   \<and> js_sub (Fin 300) (Fin 500) = Fin (- 200)
   \<and> getDistanceToTheBottomInPercents (pageY (pointer_at 500)) (scenario_start s) = Fin 50
   \<and> mapNumber (Fin 50) (Fin 0, Fin 100) (Fin (9 / 10), Fin 1) = Fin (95 / 100)
   \<and> style_transform (onDragMove (pointer_at 500) (scenario_start s))
       = TranslateY_Scale (Fin 50) (Fin (95 / 100))
   \<and> js_lt (Fin 50) (Fin 75)
   \<and> onDragEnd (pointer_at 500) (onDragMove (pointer_at 500) (scenario_start s))
       = release (close (onDragMove (pointer_at 500) (scenario_start s)))
   \<and> dispatched (onDragEnd (pointer_at 500) (onDragMove (pointer_at 500) (scenario_start s)))
       = dispatched s @ [''close'']
   \<and> \<not> get_open (onDragEnd (pointer_at 500) (onDragMove (pointer_at 500) (scenario_start s)))"
proof -
  have active: "dragPosition (onDragMove (pointer_at 500) (scenario_start s)) \<noteq> None"
    by (simp add: onDragMove_frame scenario_fields)
  have d: "getDistanceToTheBottomInPercents (pageY (pointer_at 500))
             (onDragMove (pointer_at 500) (scenario_start s)) = Fin 50"
    by (simp add: distance_after_move pageY_pointer_at scenario_distance_500)
  have e: "onDragEnd (pointer_at 500) (onDragMove (pointer_at 500) (scenario_start s))
       = release (close (onDragMove (pointer_at 500) (scenario_start s)))"
    by (simp add: onDragEnd_active [OF active] d)
  have arith: "js_sub (Fin 300) (Fin 200) = Fin 100"
    "js_add (Fin 100) (js_mul (js_div (Fin 100) (Fin 400)) (Fin 100)) = Fin 125"
    "Math_max (Fin 0) (Math_min (Fin 100) (Fin 125)) = Fin 100"
    "js_sub (Fin 300) (Fin 500) = Fin (- 200)"
    "js_lt (Fin 50) (Fin 75)"
    by (simp_all add: js_sub_def)
  have log: "dispatched (release (close (onDragMove (pointer_at 500) (scenario_start s))))
       = dispatched s @ [''close'']"
    by (simp add: release_dispatched close_dispatched onDragMove_frame scenario_fields)
  have closed: "\<not> get_open (release (close (onDragMove (pointer_at 500) (scenario_start s))))"
    by (simp add: release_get_open close_not_open)
  show ?thesis
    using e arith log closed
    by (simp add: scenario_fields scenario_distance_200 scenario_distance_500 pageY_pointer_at
        scenario_move_200 scenario_move_500 scale_at_50)
qed

theorem drag_scenario_witness:
  "style_transform (onDragMove (pointer_at 200) (scenario_start example_sheet))
     = TranslateY_Scale (Fin 0) (Fin 1)
   \<and> style_transform (onDragMove (pointer_at 500) (scenario_start example_sheet))
     = TranslateY_Scale (Fin 50) (Fin (95 / 100))
   \<and> dispatched (onDragEnd (pointer_at 500)
        (onDragMove (pointer_at 500) (scenario_start example_sheet))) = [''close'']"
proof -
  have "dispatched (onDragEnd (pointer_at 500)
        (onDragMove (pointer_at 500) (scenario_start example_sheet)))
      = dispatched example_sheet @ [''close'']"
    using drag_scenario [of example_sheet] by blast
  then show ?thesis
    using drag_scenario [of example_sheet] by (simp add: example_sheet_log)
qed

section \<open>The option flags\<close>

lemma constructor_installed: "options (constructor markup wrapper env) = Installed"
  by (simp add: constructor_def)

lemma step_keeps_installed:
  assumes "\<not> replaces_options a" and "options s = Installed"
  shows "options (step a s) = Installed"
proof (cases a)
  case (Assign_options object)
  with assms show ?thesis by (cases object) (simp_all add: set_options_def)
next
  case (Assign_closeOnBackgroundClick v)
  with assms show ?thesis by (simp add: set_closeOnBackgroundClick_def options_attribute)
next
  case (Assign_closeOnEscapeKey v)
  with assms show ?thesis by (simp add: set_closeOnEscapeKey_def options_attribute)
qed (use assms in \<open>simp_all add: options_show_close options_attribute options_handlers
      options_window_dispatchEvent options_mount\<close>)

lemma run_keeps_installed:
  "\<forall>a\<in>set acts. \<not> replaces_options a \<Longrightarrow> options s = Installed \<Longrightarrow>
   options (run acts s) = Installed"
proof (induction acts arbitrary: s)
  case Nil
  then show ?case by (simp add: run_def)
next
  case (Cons a acts)
  then have "options (step a s) = Installed"
    by (simp add: step_keeps_installed)
  with Cons show ?case by (simp add: run_def)
qed

lemma installed_flags:
  "options s = Installed \<Longrightarrow>
     closeOnBackgroundClick s = (\<not> hasAttribute ''ignore-background-click'' s)
     \<and> closeOnEscapeKey s = (\<not> hasAttribute ''ignore-escape-key'' s)"
  by (simp add: closeOnBackgroundClick_def closeOnEscapeKey_def)

lemma installed_setters:
  "options s = Installed \<Longrightarrow>
     options (set_closeOnBackgroundClick v s) = Installed
     \<and> options (set_closeOnEscapeKey v s) = Installed
     \<and> hasAttribute ''ignore-background-click'' (set_closeOnBackgroundClick v s) = (\<not> Boolean v)
     \<and> hasAttribute ''ignore-escape-key'' (set_closeOnEscapeKey v s) = (\<not> Boolean v)"
  by (simp add: set_closeOnBackgroundClick_def set_closeOnEscapeKey_def hasAttribute_def
      setAttribute_def removeAttribute_def)

lemma flags_after_assignment:
  "closeOnBackgroundClick (set_closeOnBackgroundClick v s) = Boolean v"
  "closeOnEscapeKey (set_closeOnBackgroundClick v s) = closeOnEscapeKey s"
  "closeOnEscapeKey (set_closeOnEscapeKey v s) = Boolean v"
  "closeOnBackgroundClick (set_closeOnEscapeKey v s) = closeOnBackgroundClick s"
  by (simp_all add: closeOnBackgroundClick_def closeOnEscapeKey_def set_closeOnBackgroundClick_def
      set_closeOnEscapeKey_def hasAttribute_def setAttribute_def removeAttribute_def
      split: options_object.splits)

lemma options_replaced_fields:
  "options options_replaced = Replaced (Bool False) (Bool True)"
  "attributes options_replaced ''ignore-background-click'' = None"
  by (simp_all add: options_replaced_def run_def set_options_def example_sheet_def
      constructor_def)

text \<open>
  C7, as the claim states it, fails. \<^verbatim>\<open>options\<close> is a public field that can be assigned.
  After \<^verbatim>\<open>sheet.options = { closeOnBackgroundClick: false, closeOnEscapeKey: true }\<close> on a new
  sheet, the handlers read \<^verbatim>\<open>closeOnBackgroundClick\<close> as false although the attribute
  \<^verbatim>\<open>ignore-background-click\<close> is absent, and a click on the background no longer closes.
\<close>

theorem options_counterexample:
  "\<not> (closeOnBackgroundClick options_replaced
        = (\<not> hasAttribute ''ignore-background-click'' options_replaced))"
  by (simp add: closeOnBackgroundClick_def hasAttribute_def options_replaced_fields)

text \<open>
  C7, amended. As long as \<^verbatim>\<open>options\<close> is the object that the constructor installed, which
  it is in every state reached from a new sheet by actions that do not assign another
  object to \<^verbatim>\<open>options\<close>, \<open>closeOnBackgroundClick\<close> equals the absence of the attribute
  \<^verbatim>\<open>ignore-background-click\<close> and \<open>closeOnEscapeKey\<close> equals the absence of
  \<^verbatim>\<open>ignore-escape-key\<close>. Assigning \<open>v\<close> to a flag of that object removes its attribute when
  \<open>v\<close> is truthy and sets it otherwise, and leaves the object in place. In every state
  the flag assigned then reads as the truthiness of \<open>v\<close>, and the other flag is not
  touched.
\<close>

theorem options_reflect_attributes:
  "(options s = Installed \<longrightarrow>
       closeOnBackgroundClick s = (\<not> hasAttribute ''ignore-background-click'' s)
     \<and> closeOnEscapeKey s = (\<not> hasAttribute ''ignore-escape-key'' s)
     \<and> options (set_closeOnBackgroundClick v s) = Installed
     \<and> options (set_closeOnEscapeKey v s) = Installed
     \<and> hasAttribute ''ignore-background-click'' (set_closeOnBackgroundClick v s) = (\<not> Boolean v)
     \<and> hasAttribute ''ignore-escape-key'' (set_closeOnEscapeKey v s) = (\<not> Boolean v))
   \<and> closeOnBackgroundClick (set_closeOnBackgroundClick v s) = Boolean v
   \<and> closeOnEscapeKey (set_closeOnBackgroundClick v s) = closeOnEscapeKey s
   \<and> closeOnEscapeKey (set_closeOnEscapeKey v s) = Boolean v
   \<and> closeOnBackgroundClick (set_closeOnEscapeKey v s) = closeOnBackgroundClick s
   \<and> ((\<forall>a\<in>set acts. \<not> replaces_options a) \<longrightarrow>
        options (run acts (constructor markup wrapper env)) = Installed
        \<and> closeOnBackgroundClick (run acts (constructor markup wrapper env))
            = (\<not> hasAttribute ''ignore-background-click''
                   (run acts (constructor markup wrapper env)))
        \<and> closeOnEscapeKey (run acts (constructor markup wrapper env))
            = (\<not> hasAttribute ''ignore-escape-key''
                   (run acts (constructor markup wrapper env))))"
proof -
  have reach: "(\<forall>a\<in>set acts. \<not> replaces_options a) \<longrightarrow>
      options (run acts (constructor markup wrapper env)) = Installed"
    by (simp add: run_keeps_installed constructor_installed)
  show ?thesis
    using reach installed_flags [of s] installed_setters [of s v]
      installed_flags [of "run acts (constructor markup wrapper env)"]
      flags_after_assignment [of v s]
    by blast
qed

lemma example_run_keeps: "\<not> list_ex replaces_options example_run"
  by (simp add: example_run_def)

lemma example_run_attributes:
  "hasAttribute ''ignore-background-click'' (run example_run example_sheet)"
  "\<not> hasAttribute ''ignore-escape-key'' (run example_run example_sheet)"
  by (simp_all add: example_run_def run_def example_sheet_def constructor_def
      set_closeOnBackgroundClick_def set_closeOnEscapeKey_def onClick_def closeOnBackgroundClick_def
      show_sheet_def showModal_def close_def dispatchEvent_def setAttribute_def
      removeAttribute_def hasAttribute_def click_through_def Let_def)

theorem options_reflect_attributes_witness:
  "\<not> list_ex replaces_options example_run
   \<and> options example_sheet = Installed
   \<and> options (run example_run example_sheet) = Installed
   \<and> hasAttribute ''ignore-background-click'' (run example_run example_sheet)
   \<and> \<not> closeOnBackgroundClick (run example_run example_sheet)
   \<and> \<not> hasAttribute ''ignore-escape-key'' (run example_run example_sheet)
   \<and> closeOnEscapeKey (run example_run example_sheet)
   \<and> \<not> closeOnEscapeKey (set_closeOnEscapeKey Null example_sheet)
   \<and> hasAttribute ''ignore-escape-key'' (set_closeOnEscapeKey Null example_sheet)"
proof -
  have keeps: "\<forall>a\<in>set example_run. \<not> replaces_options a"
    using example_run_keeps by (simp add: list_ex_iff)
  have inst: "options example_sheet = Installed"
    by (simp add: example_sheet_def constructor_installed)
  show ?thesis
    using options_reflect_attributes [of example_sheet Null example_run Map.empty "Node 0"
        example_document]
      keeps inst example_run_keeps example_run_attributes
    by (simp add: example_sheet_def [symmetric])
qed

section \<open>Events without a drag session\<close>

lemma example_sheet_idle:
  "dragPosition example_sheet = None"
  "\<forall>ty m. (ty, Own m) \<notin> set (window_listeners example_sheet)"
  by (simp_all add: example_sheet_def constructor_def example_document_def)

text \<open>
  C8. While no drag session is active (the start position is \<^verbatim>\<open>undefined\<close>), a drag-move
  and a drag-end event each return at the guard: the state after the handler is the
  state before it, so nothing is closed or dispatched and no style is changed, and no
  statement that could throw is reached. The same holds for the pointer and touch
  events that the window hands to a mounted sheet.
\<close>

theorem stray_drag_events_ignored:
  "dragPosition s = None \<Longrightarrow>
     onDragMove ev s = s \<and> onDragEnd ev s = s
     \<and> ((\<forall>ty m. (ty, Own m) \<notin> set (window_listeners s))
          \<and> etype ev \<in> {''mousemove'', ''touchmove'', ''mouseup'', ''touchend''} \<longrightarrow>
        window_dispatchEvent ev (connectedCallback s) = connectedCallback s)"
proof -
  assume idle: "dragPosition s = None"
  have "dragPosition (connectedCallback s) = None"
    using idle by (simp add: connectedCallback_fields)
  then have "onDragMove ev (connectedCallback s) = connectedCallback s"
    "onDragEnd ev (connectedCallback s) = connectedCallback s"
    by (simp_all add: onDragMove_def onDragEnd_def)
  then show ?thesis
    using idle by (auto simp add: onDragMove_def onDragEnd_def mounted_dispatch)
qed

theorem stray_drag_events_ignored_witness:
  "dragPosition example_sheet = None
   \<and> onDragMove (pointer_at 500) example_sheet = example_sheet
   \<and> onDragEnd (pointer_at 500) example_sheet = example_sheet
   \<and> (\<forall>ty m. (ty, Own m) \<notin> set (window_listeners example_sheet))
   \<and> etype (mouse_up_at 500) = ''mouseup''
   \<and> window_dispatchEvent (mouse_up_at 500) (connectedCallback example_sheet)
       = connectedCallback example_sheet"
proof -
  have t: "etype (mouse_up_at 500) = ''mouseup''"
    by (simp add: mouse_up_at_def)
  show ?thesis
    using stray_drag_events_ignored [OF example_sheet_idle(1), of "pointer_at 500"]
      stray_drag_events_ignored [OF example_sheet_idle(1), of "mouse_up_at 500"]
      example_sheet_idle t
    by simp
qed

section \<open>Mounting and unmounting\<close>

text \<open>
  C9. Let none of the bound methods of the instance be subscribed on the window when the
  sheet is mounted, and let \<open>s1\<close> be any later state with the listeners that mounting left.
  Mounting appends exactly the five subscriptions (\<^verbatim>\<open>keyup\<close>, \<^verbatim>\<open>mousemove\<close>, \<^verbatim>\<open>touchmove\<close>,
  \<^verbatim>\<open>mouseup\<close>, \<^verbatim>\<open>touchend\<close>); unmounting removes exactly these, by the same references, and
  leaves the listeners of other code in place. After that, an event dispatched on the
  window, or any sequence of them, leaves the state of the sheet as it is: the drag
  position and the scale are what they were at the unmount.
\<close>

theorem unmount_releases_subscriptions:
  assumes fresh: "\<forall>ty m. (ty, Own m) \<notin> set (window_listeners s)"
    and mounted: "window_listeners s1 = window_listeners (connectedCallback s)"
  shows "window_listeners (connectedCallback s) = window_listeners s @ own_subscriptions
       \<and> window_listeners (disconnectedCallback s1) = window_listeners s
       \<and> disconnectedCallback (connectedCallback s) = s
       \<and> window_dispatchEvent ev (disconnectedCallback s1) = disconnectedCallback s1
       \<and> fold window_dispatchEvent evs (disconnectedCallback s1) = disconnectedCallback s1
       \<and> dragPosition (fold window_dispatchEvent evs (disconnectedCallback s1)) = dragPosition s1
       \<and> scaleDownTo (fold window_dispatchEvent evs (disconnectedCallback s1)) = scaleDownTo s1"
proof -
  have l: "window_listeners (disconnectedCallback s1) = window_listeners s"
    using fresh mounted by (rule unmounted_listeners)
  have "disconnectedCallback (connectedCallback s)
      = (connectedCallback s)\<lparr>window_listeners := window_listeners s\<rparr>"
    using disconnectedCallback_only_listeners [of "connectedCallback s"] fresh
    by (simp add: unmounted_listeners)
  also have "\<dots> = s\<lparr>window_listeners := window_listeners s\<rparr>"
    by (subst connectedCallback_only_listeners) simp
  finally have r: "disconnectedCallback (connectedCallback s) = s"
    by simp
  have f: "\<forall>ty m. (ty, Own m) \<notin> set (window_listeners (disconnectedCallback s1))"
    using fresh l by simp
  have d: "dragPosition (disconnectedCallback s1) = dragPosition s1"
    "scaleDownTo (disconnectedCallback s1) = scaleDownTo s1"
    by (simp_all add: disconnectedCallback_def removeEventListener_def)
  show ?thesis
    using connectedCallback_listeners [OF fresh] l r dispatch_foreign [OF f]
      dispatch_all_foreign [OF f] d
    by simp
qed

lemma busy_window_fresh: "\<forall>ty m. (ty, Own m) \<notin> set (window_listeners busy_window)"
  by (simp add: busy_window_def)

lemma dragging_mounted_listeners:
  "window_listeners dragging_mounted = window_listeners (connectedCallback busy_window)"
  by (simp add: dragging_mounted_def onDragStart_def)

lemma dragging_mounted_reacts:
  "dragPosition (window_dispatchEvent (mouse_up_at 500) dragging_mounted) = None"
  by (simp add: window_dispatchEvent_def dragging_mounted_def onDragStart_def
      connectedCallback_def addEventListener_def busy_window_def mouse_up_at_def pointer_at_def
      onDragEnd_def release_def Let_def)

theorem unmount_releases_subscriptions_witness:
  "(\<forall>ty m. (ty, Own m) \<notin> set (window_listeners busy_window))
   \<and> window_listeners dragging_mounted = window_listeners (connectedCallback busy_window)
   \<and> window_listeners (disconnectedCallback dragging_mounted)
       = [(''keyup'', Foreign 1), (''mouseup'', Foreign 2)]
   \<and> dragPosition (window_dispatchEvent (mouse_up_at 500) dragging_mounted) = None
   \<and> dragPosition (window_dispatchEvent (mouse_up_at 500) (disconnectedCallback dragging_mounted))
       = Some (Fin 300)"
proof -
  have p: "dragPosition dragging_mounted = Some (Fin 300)"
    by (simp add: dragging_mounted_def onDragStart_def pointer_at_def)
  have w: "window_listeners busy_window = [(''keyup'', Foreign 1), (''mouseup'', Foreign 2)]"
    by (simp add: busy_window_def)
  show ?thesis
    using unmount_releases_subscriptions [OF busy_window_fresh dragging_mounted_listeners,
        of "mouse_up_at 500" "[]"]
      busy_window_fresh dragging_mounted_listeners dragging_mounted_reacts p w
    by simp
qed

section \<open>Dismissing a sheet that is closed\<close>

text \<open>
  C10. Neither handler looks at the \<^verbatim>\<open>open\<close> attribute. On a sheet that is closed, a click
  outside the wrapper with \<open>closeOnBackgroundClick\<close> true, and an Escape key-up with
  \<open>closeOnEscapeKey\<close> true whose target is not a focused element inside the sheet, each
  call \<^verbatim>\<open>close()\<close>, which dispatches one more \<^verbatim>\<open>close\<close>.
\<close>

theorem closed_sheet_closes_again:
  "(\<not> get_open s \<and> sheet s \<notin> set (composedPath ev) \<and> closeOnBackgroundClick s \<longrightarrow>
      onClick ev s = close s \<and> dispatched (onClick ev s) = dispatched s @ [''close''])
   \<and> (\<not> get_open s \<and> key ev = ''Escape'' \<and> closeOnEscapeKey s
       \<and> \<not> (elementContains (target ev) s \<and> isFocused (target ev) s) \<longrightarrow>
      onKeyUp ev s = close s \<and> dispatched (onKeyUp ev s) = dispatched s @ [''close''])"
  by (simp add: onClick_cases onKeyUp_cases close_dispatched elementContains_def isFocused_def)

theorem closed_sheet_closes_again_witness:
  "\<not> get_open example_sheet
   \<and> sheet example_sheet \<notin> set (composedPath (click_through [Node 5, Node 6]))
   \<and> closeOnBackgroundClick example_sheet
   \<and> dispatched (onClick (click_through [Node 5, Node 6]) example_sheet) = [''close'']
   \<and> key (key_up_at ''Escape'' (Node 7)) = ''Escape''
   \<and> closeOnEscapeKey example_sheet
   \<and> \<not> elementContains (target (key_up_at ''Escape'' (Node 7))) example_sheet
   \<and> dispatched (onKeyUp (key_up_at ''Escape'' (Node 7)) example_sheet) = [''close'']"
proof -
  have c: "\<not> elementContains (target (key_up_at ''Escape'' (Node 7))) example_sheet"
    by (simp add: elementContains_def key_up_at_def example_sheet_def constructor_def
        example_document_def)
  show ?thesis
    using closed_sheet_closes_again [of example_sheet "click_through [Node 5, Node 6]"]
      closed_sheet_closes_again [of example_sheet "key_up_at ''Escape'' (Node 7)"]
      c key_up_at_fields example_sheet_closed example_sheet_log example_sheet_wrapper
      example_sheet_flags
    by (simp add: path_click_through close_dispatched)
qed

end
